theory Spec2Isabelle
  imports Complex_Main
begin

section \<open>The driver script's sanitization pass\<close>

text \<open>
  The adapter writes a Python driver script into the job's workspace
  (\<open>generatePythonScript\<close>).  Its function \<open>clean_obj\<close> runs over the value that the
  engine returned, before \<open>json.dump\<close> serializes it.  The values that \<open>json.dump\<close>
  can write are modelled as a tree: \<open>None\<close>, booleans, integers, floats, strings,
  dictionaries (their items in insertion order, keyed by strings), lists and tuples;
  \<open>json.dump\<close> writes a tuple as it writes a list, as an array.  A Python float is
  either a finite number or one of the three non-finite values.
\<close>

datatype pyfloat = Finite real | NaN | PosInf | NegInf

datatype pyobj =
    PyNone
  | PyBool bool
  | PyInt int
  | PyFloat pyfloat
  | PyStr string
  | PyDict "(string \<times> pyobj) list"
  | PyList "pyobj list"
  | PyTuple "pyobj list"

text \<open>\<open>math.isnan\<close> and \<open>math.isinf\<close>.\<close>

fun isnan :: "pyfloat \<Rightarrow> bool" where
  "isnan NaN = True"
| "isnan _ = False"

fun isinf :: "pyfloat \<Rightarrow> bool" where
  "isinf PosInf = True"
| "isinf NegInf = True"
| "isinf _ = False"

text \<open>
  \<^verbatim>\<open>
  def clean_obj(obj):
      if isinstance(obj, float):
          if math.isnan(obj) or math.isinf(obj):
              return None
          return obj
      elif isinstance(obj, dict):
          return {k: clean_obj(v) for k, v in obj.items()}
      elif isinstance(obj, list):
          return [clean_obj(v) for v in obj]
      return obj
  \<close>
\<close>

text \<open>
  A tuple is neither a float nor a \<open>dict\<close> nor a \<open>list\<close>: like \<open>None\<close>, a boolean, an
  integer or a string it reaches the final \<open>return obj\<close>.
\<close>

fun clean_obj :: "pyobj \<Rightarrow> pyobj" where
  "clean_obj (PyFloat f) = (if isnan f \<or> isinf f then PyNone else PyFloat f)"
| "clean_obj (PyDict kvs) = PyDict (map (\<lambda>kv. (fst kv, clean_obj (snd kv))) kvs)"
| "clean_obj (PyList vs) = PyList (map clean_obj vs)"
| "clean_obj obj = obj"

text \<open>
  A value holds a non-finite number when some float of it, at any depth, is one; that
  is when \<open>json.dump\<close> writes \<open>NaN\<close> or \<open>Infinity\<close> somewhere.
\<close>

fun has_nonfinite :: "pyobj \<Rightarrow> bool" where
  "has_nonfinite (PyFloat f) = (isnan f \<or> isinf f)"
| "has_nonfinite (PyDict kvs) = list_ex (\<lambda>kv. has_nonfinite (snd kv)) kvs"
| "has_nonfinite (PyList vs) = list_ex has_nonfinite vs"
| "has_nonfinite (PyTuple vs) = list_ex has_nonfinite vs"
| "has_nonfinite _ = False"

text \<open>
  A non-finite number sits in a tuple of a value when the value, below any dictionaries
  and lists, has a tuple that holds one.
\<close>

fun nonfinite_in_tuple :: "pyobj \<Rightarrow> bool" where
  "nonfinite_in_tuple (PyDict kvs) = list_ex (\<lambda>kv. nonfinite_in_tuple (snd kv)) kvs"
| "nonfinite_in_tuple (PyList vs) = list_ex nonfinite_in_tuple vs"
| "nonfinite_in_tuple (PyTuple vs) = list_ex has_nonfinite vs"
| "nonfinite_in_tuple _ = False"

text \<open>
  Positions inside a value: a path of dictionary keys and list indices.  \<open>subtree\<close>
  follows a path and returns what stands there, if the path exists.  A path ends at a
  tuple as it ends at a number.
\<close>

datatype step = Key string | Idx nat

fun subtree :: "pyobj \<Rightarrow> step list \<Rightarrow> pyobj option" where
  "subtree obj [] = Some obj"
| "subtree (PyDict kvs) (Key k # p) =
     (case map_of kvs k of None \<Rightarrow> None | Some v \<Rightarrow> subtree v p)"
| "subtree (PyList vs) (Idx i # p) =
     (if i < length vs then subtree (vs ! i) p else None)"
| "subtree _ (_ # _) = None"

text \<open>The leaves of a value are everything but dictionaries and lists.\<close>

fun is_leaf :: "pyobj \<Rightarrow> bool" where
  "is_leaf (PyDict _) = False"
| "is_leaf (PyList _) = False"
| "is_leaf _ = True"

text \<open>The scenario of the specification: a segment whose start is not a number.\<close>

definition nan_segment_output :: pyobj where
  "nan_segment_output =
     PyDict [(''text'', PyStr ''hi''),
             (''segments'', PyList [PyDict [(''start'', PyFloat NaN),
                                            (''end'', PyFloat (Finite 1)),
                                            (''text'', PyStr ''hi'')]])]"

text \<open>A result of the engine in which a segment carries a pair of scores, one not a number.\<close>

definition tuple_output :: pyobj where
  "tuple_output =
     PyDict [(''text'', PyStr ''hi''),
             (''language'', PyStr ''en''),
             (''segments'', PyList [PyDict [(''start'', PyFloat (Finite 0)),
                                            (''end'', PyFloat (Finite 1)),
                                            (''text'', PyStr ''hi''),
                                            (''scores'', PyTuple [PyFloat NaN,
                                                                  PyFloat (Finite (1 / 2))])]])]"

section \<open>The output artifact and its decoding\<close>

text \<open>
  \<open>parseResult\<close> reads the file that the driver script wrote and hands its bytes to
  \<open>json.Unmarshal\<close>.  The bytes are either no JSON text at all (a syntax error) or the
  text of one JSON document.  A document is modelled as its tree; an object keeps its
  members in the order of the text, since the decoder works through them in that order.
  A number literal is read as \<open>strconv.ParseFloat\<close> reads it: it denotes a \<open>float64\<close>
  (always a finite one, given here by the real number it stands for) or it is out of
  the range of \<open>float64\<close>.
\<close>

datatype number = Float64 real | OutOfRange

datatype json =
    JNull
  | JBool bool
  | JNumber number
  | JString string
  | JArray "json list"
  | JObject "(string \<times> json) list"

datatype json_text = NotJSON | JSONText json

text \<open>
  Errors are values.  An error made outside this file (by the operating system, by a
  method of the embedded \<open>BaseAdapter\<close>) is known by its message only.  The two errors
  of package \<open>context\<close> and the \<open>*exec.ExitError\<close> of a child process are told apart
  because the claims speak of them; an exit error holds the state in which the child
  ended, an exit status or the signal that ended it.  The two errors of
  \<open>encoding/json\<close> are the syntax error and the type error, of which only the kind of
  JSON value that did not fit is kept.  Each \<open>fmt.Errorf\<close> of the file is a
  constructor of its own, holding what its format string takes.
\<close>

datatype process_state = ExitStatus int | Signal string

datatype go_error =
    HostError string
  | ContextCanceled
  | DeadlineExceeded
  | ExitError process_state
  | SyntaxError
  | UnmarshalTypeError string
  | OnlySupportedOnMacOS
  | UvInitFailed string go_error
  | InstallFailed string
  | WriteScriptFailed go_error
  | MLXExecutionFailed go_error
  | ParseOutputFailed go_error

text \<open>
  \<open>errors.Is\<close>: an error is a target when it equals it or when what it wraps is one.
  \<open>fmt.Errorf\<close> wraps the error that its verb \<open>%w\<close> takes; the install error is
  formatted with \<open>%s\<close> only and wraps nothing, and neither does an error made outside
  the file.
\<close>

fun errors_Is :: "go_error \<Rightarrow> go_error \<Rightarrow> bool" where
  "errors_Is (UvInitFailed out err) target =
     (UvInitFailed out err = target \<or> errors_Is err target)"
| "errors_Is (WriteScriptFailed err) target =
     (WriteScriptFailed err = target \<or> errors_Is err target)"
| "errors_Is (MLXExecutionFailed err) target =
     (MLXExecutionFailed err = target \<or> errors_Is err target)"
| "errors_Is (ParseOutputFailed err) target =
     (ParseOutputFailed err = target \<or> errors_Is err target)"
| "errors_Is err target = (err = target)"

text \<open>
  The anonymous struct \<open>mlxOutput\<close> of \<open>parseResult\<close> and its segments, and the two
  types of package \<open>interfaces\<close> that \<open>parseResult\<close> fills.  A field that the function
  never sets stays at its zero value and is left out.

  The field \<open>Segments\<close> of the struct is a slice.  A slice is a window on an array:
  its elements, and behind them the elements of the array that the slice has let go
  when it was cut short.  Those are kept, because the decoder finds them again when the
  slice grows back over them.  Room of the array that was never written holds zero
  values and needs no place in the model.
\<close>

record mlxSegment =
  mlx_Start :: real
  mlx_End :: real
  mlx_SegText :: string

record mlxSlice =
  elems :: "mlxSegment list"
  spare :: "mlxSegment list"

record mlxOutput =
  mlx_Text :: string
  mlx_Segments :: mlxSlice
  mlx_Language :: string

record TranscriptSegment =
  Start :: real
  End :: real
  SegText :: string

record TranscriptResult =
  Text :: string
  Language :: string
  ModelUsed :: string
  Segments :: "TranscriptSegment list"

definition zero_mlxSegment :: mlxSegment where
  "zero_mlxSegment = \<lparr>mlx_Start = 0, mlx_End = 0, mlx_SegText = []\<rparr>"

definition empty_slice :: mlxSlice where
  "empty_slice = \<lparr>elems = [], spare = []\<rparr>"

definition zero_mlxOutput :: mlxOutput where
  "zero_mlxOutput = \<lparr>mlx_Text = [], mlx_Segments = empty_slice, mlx_Language = []\<rparr>"

subsection \<open>Matching a key of the document to a field\<close>

text \<open>
  \<open>encoding/json\<close> matches a key to a field by its folded name: ASCII letters in upper
  case, and every other character replaced by the least member of its case-folding
  orbit.  Two characters outside ASCII fold to an ASCII letter: the long s (U+017F,
  in UTF-8 the bytes C5 BF) to \<open>S\<close> and the Kelvin sign (U+212A, bytes E2 84 AA) to
  \<open>K\<close>.  Any other byte outside ASCII is kept here as it is; it folds to something
  outside ASCII in Go too, so the key equals no folded field name either way.
\<close>

definition upper_ascii :: "char \<Rightarrow> char" where
  "upper_ascii c =
     (if 97 \<le> (of_char c :: nat) \<and> (of_char c :: nat) \<le> 122
      then char_of ((of_char c :: nat) - 32) else c)"

fun foldName :: "string \<Rightarrow> string" where
  "foldName [] = []"
| "foldName (c # cs) =
     (if c = CHR 0xC5 \<and> take 1 cs = [CHR 0xBF] then CHR ''S'' # foldName (drop 1 cs)
      else if c = CHR 0xE2 \<and> take 2 cs = [CHR 0x84, CHR 0xAA] then CHR ''K'' # foldName (drop 2 cs)
      else upper_ascii c # foldName cs)"

definition names_field :: "string \<Rightarrow> string \<Rightarrow> bool" where
  "names_field key field = (foldName key = foldName field)"

subsection \<open>\<open>json.Unmarshal\<close> into the struct\<close>

text \<open>
  Decoding writes into a value that already exists.  \<open>null\<close> leaves any field of these
  types as it is, except a slice, which becomes \<open>nil\<close>; a JSON value of the wrong kind
  for the field is an \<open>UnmarshalTypeError\<close>; a key that names no field is skipped with
  its value.  The members of an object are decoded in order, so a later member
  for the same field decodes into what an earlier one left.

  An array is decoded into a slice element by element, each into the element that the
  array under the slice holds at that position: an element of the slice as it was, an
  element it had let go, or, past those, a zero value.  Afterwards the slice has as
  many elements as the array of the document, and what the old array held beyond them
  stays behind the slice.  An empty array gives a new empty slice.

  \<open>Unmarshal\<close> goes on after a type error and reports the first one at the end;
  \<open>parseResult\<close> drops the struct in that case, so the model stops at the first error.
\<close>

fun decode_float64 :: "real \<Rightarrow> json \<Rightarrow> go_error + real" where
  "decode_float64 old JNull = Inr old"
| "decode_float64 old (JNumber (Float64 x)) = Inr x"
| "decode_float64 old (JNumber OutOfRange) = Inl (UnmarshalTypeError ''number'')"
| "decode_float64 old (JBool _) = Inl (UnmarshalTypeError ''bool'')"
| "decode_float64 old (JString _) = Inl (UnmarshalTypeError ''string'')"
| "decode_float64 old (JArray _) = Inl (UnmarshalTypeError ''array'')"
| "decode_float64 old (JObject _) = Inl (UnmarshalTypeError ''object'')"

fun decode_string :: "string \<Rightarrow> json \<Rightarrow> go_error + string" where
  "decode_string old JNull = Inr old"
| "decode_string old (JString s) = Inr s"
| "decode_string old (JNumber _) = Inl (UnmarshalTypeError ''number'')"
| "decode_string old (JBool _) = Inl (UnmarshalTypeError ''bool'')"
| "decode_string old (JArray _) = Inl (UnmarshalTypeError ''array'')"
| "decode_string old (JObject _) = Inl (UnmarshalTypeError ''object'')"

definition decode_segment_member :: "mlxSegment \<Rightarrow> string \<times> json \<Rightarrow> go_error + mlxSegment" where
  "decode_segment_member seg kv =
     (if names_field (fst kv) ''start'' then
        (case decode_float64 (mlx_Start seg) (snd kv) of
           Inl e \<Rightarrow> Inl e | Inr x \<Rightarrow> Inr (seg\<lparr>mlx_Start := x\<rparr>))
      else if names_field (fst kv) ''end'' then
        (case decode_float64 (mlx_End seg) (snd kv) of
           Inl e \<Rightarrow> Inl e | Inr x \<Rightarrow> Inr (seg\<lparr>mlx_End := x\<rparr>))
      else if names_field (fst kv) ''text'' then
        (case decode_string (mlx_SegText seg) (snd kv) of
           Inl e \<Rightarrow> Inl e | Inr s \<Rightarrow> Inr (seg\<lparr>mlx_SegText := s\<rparr>))
      else Inr seg)"

fun decode_segment_members :: "mlxSegment \<Rightarrow> (string \<times> json) list \<Rightarrow> go_error + mlxSegment" where
  "decode_segment_members seg [] = Inr seg"
| "decode_segment_members seg (kv # kvs) =
     (case decode_segment_member seg kv of
        Inl e \<Rightarrow> Inl e | Inr seg' \<Rightarrow> decode_segment_members seg' kvs)"

fun decode_segment :: "mlxSegment \<Rightarrow> json \<Rightarrow> go_error + mlxSegment" where
  "decode_segment old JNull = Inr old"
| "decode_segment old (JObject kvs) = decode_segment_members old kvs"
| "decode_segment old (JNumber _) = Inl (UnmarshalTypeError ''number'')"
| "decode_segment old (JBool _) = Inl (UnmarshalTypeError ''bool'')"
| "decode_segment old (JString _) = Inl (UnmarshalTypeError ''string'')"
| "decode_segment old (JArray _) = Inl (UnmarshalTypeError ''array'')"

text \<open>
  \<open>decode_elements\<close> takes what the array under the slice holds from the current
  position on, and returns the elements decoded and what is left of the old array
  behind them.
\<close>

fun decode_elements :: "mlxSegment list \<Rightarrow> json list
    \<Rightarrow> go_error + (mlxSegment list \<times> mlxSegment list)" where
  "decode_elements old [] = Inr ([], old)"
| "decode_elements old (j # js) =
     (case decode_segment (case old of [] \<Rightarrow> zero_mlxSegment | seg # _ \<Rightarrow> seg) j of
        Inl e \<Rightarrow> Inl e
      | Inr seg \<Rightarrow>
          (case decode_elements (tl old) js of
             Inl e \<Rightarrow> Inl e
           | Inr (segs, rest) \<Rightarrow> Inr (seg # segs, rest)))"

fun decode_segments :: "mlxSlice \<Rightarrow> json \<Rightarrow> go_error + mlxSlice" where
  "decode_segments old JNull = Inr empty_slice"
| "decode_segments old (JArray js) =
     (if js = [] then Inr empty_slice
      else
        (case decode_elements (elems old @ spare old) js of
           Inl e \<Rightarrow> Inl e
         | Inr (segs, rest) \<Rightarrow> Inr \<lparr>elems = segs, spare = rest\<rparr>))"
| "decode_segments old (JNumber _) = Inl (UnmarshalTypeError ''number'')"
| "decode_segments old (JBool _) = Inl (UnmarshalTypeError ''bool'')"
| "decode_segments old (JString _) = Inl (UnmarshalTypeError ''string'')"
| "decode_segments old (JObject _) = Inl (UnmarshalTypeError ''object'')"

definition decode_output_member :: "mlxOutput \<Rightarrow> string \<times> json \<Rightarrow> go_error + mlxOutput" where
  "decode_output_member out kv =
     (if names_field (fst kv) ''text'' then
        (case decode_string (mlx_Text out) (snd kv) of
           Inl e \<Rightarrow> Inl e | Inr s \<Rightarrow> Inr (out\<lparr>mlx_Text := s\<rparr>))
      else if names_field (fst kv) ''segments'' then
        (case decode_segments (mlx_Segments out) (snd kv) of
           Inl e \<Rightarrow> Inl e | Inr segs \<Rightarrow> Inr (out\<lparr>mlx_Segments := segs\<rparr>))
      else if names_field (fst kv) ''language'' then
        (case decode_string (mlx_Language out) (snd kv) of
           Inl e \<Rightarrow> Inl e | Inr s \<Rightarrow> Inr (out\<lparr>mlx_Language := s\<rparr>))
      else Inr out)"

fun decode_output_members :: "mlxOutput \<Rightarrow> (string \<times> json) list \<Rightarrow> go_error + mlxOutput" where
  "decode_output_members out [] = Inr out"
| "decode_output_members out (kv # kvs) =
     (case decode_output_member out kv of
        Inl e \<Rightarrow> Inl e | Inr out' \<Rightarrow> decode_output_members out' kvs)"

fun Unmarshal :: "json_text \<Rightarrow> go_error + mlxOutput" where
  "Unmarshal NotJSON = Inl SyntaxError"
| "Unmarshal (JSONText JNull) = Inr zero_mlxOutput"
| "Unmarshal (JSONText (JObject kvs)) = decode_output_members zero_mlxOutput kvs"
| "Unmarshal (JSONText (JNumber _)) = Inl (UnmarshalTypeError ''number'')"
| "Unmarshal (JSONText (JBool _)) = Inl (UnmarshalTypeError ''bool'')"
| "Unmarshal (JSONText (JString _)) = Inl (UnmarshalTypeError ''string'')"
| "Unmarshal (JSONText (JArray _)) = Inl (UnmarshalTypeError ''array'')"

subsection \<open>\<open>strings.TrimSpace\<close>\<close>

text \<open>
  \<open>strings.TrimSpace\<close> removes the leading and trailing white space of a string, as
  Unicode defines it.  A Go string is a sequence of bytes; the white space characters
  are listed by their UTF-8 encodings: the six of ASCII, U+0085, U+00A0, U+1680,
  U+2000 to U+200A, U+2028, U+2029, U+202F, U+205F and U+3000.
\<close>

definition White_Space :: "string list" where
  "White_Space =
     [[CHR 0x09], [CHR 0x0A], [CHR 0x0B], [CHR 0x0C], [CHR 0x0D], [CHR 0x20],
      [CHR 0xC2, CHR 0x85], [CHR 0xC2, CHR 0xA0], [CHR 0xE1, CHR 0x9A, CHR 0x80],
      [CHR 0xE2, CHR 0x80, CHR 0x80], [CHR 0xE2, CHR 0x80, CHR 0x81],
      [CHR 0xE2, CHR 0x80, CHR 0x82], [CHR 0xE2, CHR 0x80, CHR 0x83],
      [CHR 0xE2, CHR 0x80, CHR 0x84], [CHR 0xE2, CHR 0x80, CHR 0x85],
      [CHR 0xE2, CHR 0x80, CHR 0x86], [CHR 0xE2, CHR 0x80, CHR 0x87],
      [CHR 0xE2, CHR 0x80, CHR 0x88], [CHR 0xE2, CHR 0x80, CHR 0x89],
      [CHR 0xE2, CHR 0x80, CHR 0x8A], [CHR 0xE2, CHR 0x80, CHR 0xA8],
      [CHR 0xE2, CHR 0x80, CHR 0xA9], [CHR 0xE2, CHR 0x80, CHR 0xAF],
      [CHR 0xE2, CHR 0x81, CHR 0x9F], [CHR 0xE3, CHR 0x80, CHR 0x80]]"

text \<open>The number of bytes of the white space character that a string starts with, if any.\<close>

definition leading_space :: "string list \<Rightarrow> string \<Rightarrow> nat" where
  "leading_space spaces s =
     (case List.find (\<lambda>w. w \<noteq> [] \<and> take (length w) s = w) spaces of
        None \<Rightarrow> 0 | Some w \<Rightarrow> length w)"

function TrimLeft :: "string list \<Rightarrow> string \<Rightarrow> string" where
  "TrimLeft spaces s =
     (if leading_space spaces s = 0 then s
      else TrimLeft spaces (drop (leading_space spaces s) s))"
  by pat_completeness auto
termination
proof (relation "measure (\<lambda>(spaces, s). length s)")
  show "wf (measure (\<lambda>(spaces, s). length s))" by simp
next
  fix spaces :: "string list" and s :: string
  assume a: "leading_space spaces s \<noteq> 0"
  then obtain w where "w \<noteq> []" and "take (length w) s = w"
    unfolding leading_space_def
    by (auto split: option.splits dest: find_Some_iff [THEN iffD1])
  then have "s \<noteq> []" by auto
  with a show "((spaces, drop (leading_space spaces s) s), (spaces, s))
      \<in> measure (\<lambda>(spaces, s). length s)"
    by simp
qed

definition TrimSpace :: "string \<Rightarrow> string" where
  "TrimSpace s = rev (TrimLeft (map rev White_Space) (rev (TrimLeft White_Space s)))"

section \<open>The adapter and the world around it\<close>

text \<open>
  A value of \<open>map[string]interface{}\<close>: the caller's parameters.
\<close>

datatype go_value = VNil | VString string | VBool bool | VInt int | VFloat real

type_synonym params = "string \<Rightarrow> go_value option"

text \<open>An entry of the parameter schema, and the schema that \<open>NewMLXAdapter\<close> builds.\<close>

record ParameterSchema =
  Name :: string
  Type :: string
  Required :: bool
  Default :: go_value
  Options :: "string list"
  Description :: string
  Group :: string

definition schema :: "ParameterSchema list" where
  "schema =
     [\<lparr>Name = ''model'', Type = ''string'', Required = False,
       Default = VString ''mlx-community/whisper-large-v3-mlx'',
       Options = [''mlx-community/whisper-large-v3-mlx'',
                  ''mlx-community/whisper-large-v3-turbo'',
                  ''mlx-community/whisper-base-mlx''],
       Description = ''Hugging Face model ID for MLX'', Group = ''basic''\<rparr>,
      \<lparr>Name = ''quantization'', Type = ''string'', Required = False,
       Default = VString ''4bit'',
       Options = [''4bit'', ''8bit'', ''none''],
       Description = ''Model quantization level'', Group = ''advanced''\<rparr>]"

text \<open>
  The adapter: the \<open>initialized\<close> flag of the embedded \<open>BaseAdapter\<close> and the path of
  the environment.
\<close>

record MLXAdapter =
  initialized :: bool
  envPath :: string

record AudioInput =
  FilePath :: string

record ProcessingContext =
  OutputDirectory :: string

text \<open>
  A command of \<open>os/exec\<close>: the program, its arguments, the directory it runs in when one
  is set, and whether it was made by \<open>exec.CommandContext\<close>, which kills the child
  when the context is done.
\<close>

record command =
  cmd_name :: string
  cmd_args :: "string list"
  cmd_dir :: "string option"
  cmd_ctx :: bool

text \<open>
  Everything the file calls and does not define is a field of the host: the constant
  \<open>runtime.GOOS\<close>, \<open>filepath.Join\<close>, the calls into the operating system and the
  methods of \<open>BaseAdapter\<close>.  A field gives the result of the call; \<open>None\<close> is the
  \<open>nil\<close> error.  \<open>IsNotExist\<close> is \<open>os.IsNotExist\<close> of the error of \<open>os.Stat\<close>.
  \<open>ReadFile\<close> gives the bytes through the eyes of the JSON grammar.
\<close>

record host =
  GOOS :: string
  Join :: "string \<Rightarrow> string \<Rightarrow> string"
  CheckEnvironmentReady :: "string \<Rightarrow> string \<Rightarrow> bool"
  MkdirAll :: "string \<Rightarrow> go_error option"
  IsNotExist :: "string \<Rightarrow> bool"
  CombinedOutput :: "command \<Rightarrow> string \<times> go_error option"
  ValidateAudioInput :: "AudioInput \<Rightarrow> go_error option"
  CreateTempDirectory :: "ProcessingContext \<Rightarrow> go_error + string"
  WriteFile :: "string \<Rightarrow> go_error option"
  GetStringParameter :: "params \<Rightarrow> string \<Rightarrow> string"
  Run :: "command \<Rightarrow> go_error option"
  ReadFile :: "string \<Rightarrow> go_error + json_text"

text \<open>
  What a call does to the world is kept as the list of the calls it made, in order.
\<close>

datatype event =
    EvCheckEnvironmentReady string string
  | EvMkdirAll string
  | EvStat string
  | EvCombinedOutput command
  | EvLogProcessingStart
  | EvLogProcessingEnd
  | EvValidateAudioInput AudioInput
  | EvCreateTempDirectory
  | EvCleanupTempDirectory string
  | EvWriteFile string
  | EvCreate string
  | EvRun command
  | EvReadFile string

fun launches_process :: "event \<Rightarrow> bool" where
  "launches_process (EvCombinedOutput _) = True"
| "launches_process (EvRun _) = True"
| "launches_process _ = False"

fun creates_log :: "event \<Rightarrow> bool" where
  "creates_log (EvCreate _) = True"
| "creates_log _ = False"

text \<open>The actions of provisioning: making the directory and running \<open>uv\<close>.\<close>

fun install_action :: "event \<Rightarrow> bool" where
  "install_action (EvMkdirAll _) = True"
| "install_action (EvCombinedOutput _) = True"
| "install_action _ = False"

subsection \<open>\<open>PrepareEnvironment\<close>\<close>

definition initCmd :: "string \<Rightarrow> command" where
  "initCmd mlxPath =
     \<lparr>cmd_name = ''uv'', cmd_args = [''init'', ''--name'', ''scriberr-mlx-wrapper''],
      cmd_dir = Some mlxPath, cmd_ctx = False\<rparr>"

definition installCmd :: "string \<Rightarrow> command" where
  "installCmd mlxPath =
     \<lparr>cmd_name = ''uv'', cmd_args = [''add'', ''mlx-whisper'', ''ffmpeg-python''],
      cmd_dir = Some mlxPath, cmd_ctx = False\<rparr>"

text \<open>The last step: \<open>uv add\<close>, after the calls made so far.\<close>

definition install :: "host \<Rightarrow> MLXAdapter \<Rightarrow> string \<Rightarrow> event list
    \<Rightarrow> go_error option \<times> MLXAdapter \<times> event list" where
  "install h m mlxPath sofar =
     (case CombinedOutput h (installCmd mlxPath) of
        (out, Some err) \<Rightarrow>
          (Some (InstallFailed out), m, sofar @ [EvCombinedOutput (installCmd mlxPath)])
      | (out, None) \<Rightarrow>
          (None, m\<lparr>initialized := True\<rparr>, sofar @ [EvCombinedOutput (installCmd mlxPath)]))"

text \<open>
  The result is the error returned, the adapter afterwards and the calls made.
\<close>

definition PrepareEnvironment :: "host \<Rightarrow> MLXAdapter
    \<Rightarrow> go_error option \<times> MLXAdapter \<times> event list" where
  "PrepareEnvironment h m =
     (if GOOS h \<noteq> ''darwin'' then (Some OnlySupportedOnMacOS, m, [])
      else
        let mlxPath = Join h (envPath m) ''MLX'';
            probe = [EvCheckEnvironmentReady mlxPath ''import mlx_whisper'']
        in
        if CheckEnvironmentReady h mlxPath ''import mlx_whisper''
        then (None, m\<lparr>initialized := True\<rparr>, probe)
        else
          (case MkdirAll h mlxPath of
             Some err \<Rightarrow> (Some err, m, probe @ [EvMkdirAll mlxPath])
           | None \<Rightarrow>
               let manifest = Join h mlxPath ''pyproject.toml'';
                   made = probe @ [EvMkdirAll mlxPath, EvStat manifest]
               in
               if IsNotExist h manifest then
                 (case CombinedOutput h (initCmd mlxPath) of
                    (out, Some err) \<Rightarrow>
                      (Some (UvInitFailed out err), m,
                       made @ [EvCombinedOutput (initCmd mlxPath)])
                  | (out, None) \<Rightarrow>
                      install h m mlxPath (made @ [EvCombinedOutput (initCmd mlxPath)]))
               else install h m mlxPath made))"

subsection \<open>\<open>parseResult\<close>\<close>

definition convert_segment :: "mlxSegment \<Rightarrow> TranscriptSegment" where
  "convert_segment seg =
     \<lparr>Start = mlx_Start seg, End = mlx_End seg, SegText = TrimSpace (mlx_SegText seg)\<rparr>"

text \<open>
  The result is the pair that the Go function returns, a pointer that may be \<open>nil\<close>
  and an error that may be \<open>nil\<close>, and the calls made.
\<close>

definition parseResult :: "host \<Rightarrow> string \<Rightarrow> params
    \<Rightarrow> (TranscriptResult option \<times> go_error option) \<times> event list" where
  "parseResult h jsonPath ps =
     (case ReadFile h jsonPath of
        Inl err \<Rightarrow> ((None, Some err), [EvReadFile jsonPath])
      | Inr data \<Rightarrow>
          (case Unmarshal data of
             Inl err \<Rightarrow> ((None, Some (ParseOutputFailed err)), [EvReadFile jsonPath])
           | Inr mlxOut \<Rightarrow>
               ((Some \<lparr>Text = mlx_Text mlxOut,
                       Language = mlx_Language mlxOut,
                       ModelUsed = GetStringParameter h ps ''model'',
                       Segments = map convert_segment (elems (mlx_Segments mlxOut))\<rparr>,
                 None),
                [EvReadFile jsonPath])))"

subsection \<open>\<open>Transcribe\<close>\<close>

definition runCmd :: "host \<Rightarrow> MLXAdapter \<Rightarrow> string \<Rightarrow> AudioInput \<Rightarrow> string \<Rightarrow> command" where
  "runCmd h m tempDir input modelName =
     \<lparr>cmd_name = ''uv'',
      cmd_args = [''run'', ''--project'', Join h (envPath m) ''MLX'', ''python'',
                  Join h tempDir ''transcribe_mlx.py'',
                  ''--audio'', FilePath input,
                  ''--model'', modelName,
                  ''--output'', Join h tempDir ''output.json''],
      cmd_dir = None, cmd_ctx = True\<rparr>"

text \<open>
  The two deferred calls run when the function returns, the later one first:
  \<open>CleanupTempDirectory\<close> once the workspace exists, then \<open>LogProcessingEnd\<close>.  The
  error of \<open>os.Create\<close> is dropped by the source, so the host is not asked for it.
  What \<open>os.WriteFile\<close> writes is the constant text of \<open>generatePythonScript\<close>, the
  script whose \<open>clean_obj\<close> is modelled above; the event keeps the path.  The clock
  (\<open>time.Now\<close>, \<open>time.Since\<close>) only feeds the log call and is left out.
\<close>

definition Transcribe :: "host \<Rightarrow> MLXAdapter \<Rightarrow> AudioInput \<Rightarrow> params \<Rightarrow> ProcessingContext
    \<Rightarrow> (TranscriptResult option \<times> go_error option) \<times> event list" where
  "Transcribe h m input ps procCtx =
     (case ValidateAudioInput h input of
        Some err \<Rightarrow>
          ((None, Some err),
           [EvLogProcessingStart, EvValidateAudioInput input, EvLogProcessingEnd])
      | None \<Rightarrow>
          (case CreateTempDirectory h procCtx of
             Inl err \<Rightarrow>
               ((None, Some err),
                [EvLogProcessingStart, EvValidateAudioInput input, EvCreateTempDirectory,
                 EvLogProcessingEnd])
           | Inr tempDir \<Rightarrow>
               let begun = [EvLogProcessingStart, EvValidateAudioInput input,
                            EvCreateTempDirectory];
                   deferred = [EvCleanupTempDirectory tempDir, EvLogProcessingEnd];
                   scriptPath = Join h tempDir ''transcribe_mlx.py''
               in
               (case WriteFile h scriptPath of
                  Some err \<Rightarrow>
                    ((None, Some (WriteScriptFailed err)),
                     begun @ [EvWriteFile scriptPath] @ deferred)
                | None \<Rightarrow>
                    let modelName = GetStringParameter h ps ''model'';
                        outputJson = Join h tempDir ''output.json'';
                        cmd = runCmd h m tempDir input modelName;
                        logPath = Join h (OutputDirectory procCtx) ''mlx_transcription.log'';
                        ran = begun @ [EvWriteFile scriptPath, EvCreate logPath, EvRun cmd]
                    in
                    (case Run h cmd of
                       Some err \<Rightarrow> ((None, Some (MLXExecutionFailed err)), ran @ deferred)
                     | None \<Rightarrow>
                         (fst (parseResult h outputJson ps),
                          ran @ snd (parseResult h outputJson ps) @ deferred)))))"

section \<open>What the specification asks of the parameters\<close>

text \<open>
  Modelled from the spec: the validation of a parameter map against the schema, which
  no code of \<open>mlx_apapter.go\<close> performs.  The specification (4.3) has a missing
  required key fail with \<open>MissingParameter\<close> and a value of the wrong type fail with
  \<open>InvalidParameter\<close>; unknown keys are not looked at.
\<close>

datatype param_error = MissingParameter string | InvalidParameter string

fun has_type :: "string \<Rightarrow> go_value \<Rightarrow> bool" where
  "has_type t (VString _) = (t = ''string'' \<or> t = ''enum'')"
| "has_type t (VBool _) = (t = ''bool'')"
| "has_type t (VInt _) = (t = ''number'')"
| "has_type t (VFloat _) = (t = ''number'')"
| "has_type t VNil = False"

fun validate :: "ParameterSchema list \<Rightarrow> params \<Rightarrow> param_error option" where
  "validate [] ps = None"
| "validate (e # es) ps =
     (case ps (Name e) of
        None \<Rightarrow> if Required e then Some (MissingParameter (Name e)) else validate es ps
      | Some v \<Rightarrow> if has_type (Type e) v then validate es ps
                  else Some (InvalidParameter (Name e)))"

text \<open>
  Modelled from the spec: \<open>BaseAdapter.GetStringParameter\<close>, which is not among the
  sources.  The caller's value is used when the key holds a string; otherwise the
  default that the schema declares for the key is substituted, and the empty string
  when the schema has none.  The method returns a string and no error.
\<close>

fun schema_default :: "ParameterSchema list \<Rightarrow> string \<Rightarrow> string" where
  "schema_default [] name = []"
| "schema_default (e # es) name =
     (if Name e = name then (case Default e of VString s \<Rightarrow> s | _ \<Rightarrow> schema_default es name)
      else schema_default es name)"

definition string_parameter :: "ParameterSchema list \<Rightarrow> params \<Rightarrow> string \<Rightarrow> string" where
  "string_parameter sch ps name =
     (case ps name of Some (VString s) \<Rightarrow> s | _ \<Rightarrow> schema_default sch name)"

section \<open>Example hosts and artifacts\<close>

text \<open>The artifact of the specification's scenario.\<close>

definition scenario_artifact :: json where
  "scenario_artifact =
     JObject [(''text'', JString '' hi  ''),
              (''language'', JString ''en''),
              (''segments'',
               JArray [JObject [(''start'', JNumber (Float64 0)),
                                (''end'', JNumber (Float64 1)),
                                (''text'', JString '' hi '')]])]"


text \<open>
  \<open>filepath.Join\<close> of the standard library on a Unix host, after its documentation:
  leading empty elements are ignored, the others are joined by a slash, and the result
  is cleaned.  \<open>Clean\<close> makes one slash of several, drops every \<open>.\<close> element, drops
  an inner \<open>..\<close> element with the element in front of it, drops a \<open>..\<close> that begins
  a rooted path, and gives \<open>.\<close> for an empty result.
\<close>

fun split_slash :: "string \<Rightarrow> string list" where
  "split_slash [] = [[]]"
| "split_slash (c # cs) =
     (if c = CHR ''/'' then [] # split_slash cs
      else (case split_slash cs of [] \<Rightarrow> [[c]] | w # ws \<Rightarrow> (c # w) # ws))"

fun join_slash :: "string list \<Rightarrow> string" where
  "join_slash [] = []"
| "join_slash [e] = e"
| "join_slash (e # es) = e @ CHR ''/'' # join_slash es"

fun clean_elems :: "bool \<Rightarrow> string list \<Rightarrow> string list \<Rightarrow> string list" where
  "clean_elems rooted out [] = rev out"
| "clean_elems rooted out (e # es) =
     (if e = [] \<or> e = ''.'' then clean_elems rooted out es
      else if e = ''..'' then
        (case out of
           [] \<Rightarrow> if rooted then clean_elems rooted [] es else clean_elems rooted [e] es
         | prev # earlier \<Rightarrow>
             if prev = ''..'' then clean_elems rooted (e # out) es
             else clean_elems rooted earlier es)
      else clean_elems rooted (e # out) es)"

definition Clean :: "string \<Rightarrow> string" where
  "Clean path =
     (let rooted = (take 1 path = ''/'');
          body = join_slash (clean_elems rooted [] (split_slash path))
      in if rooted then CHR ''/'' # body else if body = [] then ''.'' else body)"

definition filepath_Join :: "string \<Rightarrow> string \<Rightarrow> string" where
  "filepath_Join a b =
     (case dropWhile (\<lambda>e. e = []) [a, b] of
        [] \<Rightarrow> []
      | es \<Rightarrow> Clean (join_slash es))"

text \<open>
  A macOS host on which every step succeeds, the environment is ready and the engine
  writes the scenario's artifact; the audio file \<open>missing.wav\<close> does not exist.
\<close>

definition mac_host :: host where
  "mac_host =
     \<lparr>GOOS = ''darwin'',
      Join = filepath_Join,
      CheckEnvironmentReady = (\<lambda>path stmt. True),
      MkdirAll = (\<lambda>path. None),
      IsNotExist = (\<lambda>path. False),
      CombinedOutput = (\<lambda>cmd. ([], None)),
      ValidateAudioInput =
        (\<lambda>input. if FilePath input = ''missing.wav''
                  then Some (HostError ''audio file not found'') else None),
      CreateTempDirectory = (\<lambda>procCtx. Inr ''/tmp/job1''),
      WriteFile = (\<lambda>path. None),
      GetStringParameter = string_parameter schema,
      Run = (\<lambda>cmd. None),
      ReadFile = (\<lambda>path. Inr (JSONText scenario_artifact))\<rparr>"

text \<open>The same machine before anything was installed.\<close>

definition fresh_mac_host :: host where
  "fresh_mac_host =
     mac_host\<lparr>CheckEnvironmentReady := (\<lambda>path stmt. False), IsNotExist := (\<lambda>path. True)\<rparr>"

definition linux_host :: host where
  "linux_host = mac_host\<lparr>GOOS := ''linux''\<rparr>"

text \<open>
  Hosts on which the engine does not finish.  When the context of the call is
  cancelled while the child runs, \<open>os/exec\<close> kills the child and \<open>cmd.Run\<close> returns the
  exit error of a killed process, "signal: killed"; it does the same when the
  deadline of the context passes while the child runs.  On the last host the engine
  fails by itself, with exit status 1.
\<close>

definition cancelled_host :: host where
  "cancelled_host = mac_host\<lparr>Run := (\<lambda>cmd. Some (ExitError (Signal ''killed'')))\<rparr>"

definition timeout_host :: host where
  "timeout_host = mac_host\<lparr>Run := (\<lambda>cmd. Some (ExitError (Signal ''killed'')))\<rparr>"

definition failing_host :: host where
  "failing_host = mac_host\<lparr>Run := (\<lambda>cmd. Some (ExitError (ExitStatus 1)))\<rparr>"


definition adapter :: MLXAdapter where
  "adapter = \<lparr>initialized = False, envPath = ''./data/mlx-env''\<rparr>"

definition audio :: AudioInput where
  "audio = \<lparr>FilePath = ''talk.wav''\<rparr>"

definition missing_audio :: AudioInput where
  "missing_audio = \<lparr>FilePath = ''missing.wav''\<rparr>"

definition job :: ProcessingContext where
  "job = \<lparr>OutputDirectory = ''/out/job1''\<rparr>"

text \<open>
  Parameters with a value of the wrong type for \<open>model\<close>, and with a key that the
  schema does not know.
\<close>

definition mistyped_params :: params where
  "mistyped_params = [''model'' \<mapsto> VInt 42]"

definition unknown_key_params :: params where
  "unknown_key_params = [''beam_size'' \<mapsto> VInt 5]"

section \<open>Notions used to state the properties\<close>

text \<open>
  The timing of a list of segments is in order when every segment starts no later than
  it ends and no segment starts before the one in front of it.
\<close>

definition well_timed :: "TranscriptSegment list \<Rightarrow> bool" where
  "well_timed segs =
     ((\<forall>i < length segs. Start (segs ! i) \<le> End (segs ! i)) \<and>
      (\<forall>i. 0 < i \<and> i < length segs \<longrightarrow> Start (segs ! (i - 1)) \<le> Start (segs ! i)))"

text \<open>
  The value that an object gives to a field is that of its last member naming the
  field.  An object names a field once when exactly one of its members names it, as in
  an object written from a Python dictionary.  A field is null in an object when the
  object names it and every member that names it holds \<open>null\<close>.
\<close>

fun last_member :: "string \<Rightarrow> (string \<times> json) list \<Rightarrow> json option" where
  "last_member field [] = None"
| "last_member field (kv # kvs) =
     (case last_member field kvs of
        Some v \<Rightarrow> Some v
      | None \<Rightarrow> if names_field (fst kv) field then Some (snd kv) else None)"



text \<open>
  The times that a segment of the artifact states: the numbers that the object gives
  to \<open>start\<close> and to \<open>end\<close>, when it gives a number to both.  The timing of the
  segment array of an artifact is in order when every segment states its times, starts
  no later than it ends, and does not start before the one in front of it.
\<close>

fun segment_times :: "json \<Rightarrow> (real \<times> real) option" where
  "segment_times (JObject kvs) =
     (case (last_member ''start'' kvs, last_member ''end'' kvs) of
        (Some (JNumber (Float64 s)), Some (JNumber (Float64 e))) \<Rightarrow> Some (s, e)
      | _ \<Rightarrow> None)"
| "segment_times _ = None"

definition artifact_well_timed :: "json list \<Rightarrow> bool" where
  "artifact_well_timed js =
     (list_all (\<lambda>j. segment_times j \<noteq> None) js \<and>
      (\<forall>i < length js. fst (the (segment_times (js ! i))) \<le> snd (the (segment_times (js ! i)))) \<and>
      (\<forall>i. 0 < i \<and> i < length js \<longrightarrow>
         fst (the (segment_times (js ! (i - 1)))) \<le> fst (the (segment_times (js ! i)))))"

text \<open>An artifact with two segments, and a host whose engine writes it.\<close>

definition two_segment_artifact :: json where
  "two_segment_artifact =
     JObject [(''text'', JString '' a b''),
              (''segments'',
               JArray [JObject [(''start'', JNumber (Float64 0)),
                                (''end'', JNumber (Float64 1)),
                                (''text'', JString '' a'')],
                       JObject [(''start'', JNumber (Float64 1)),
                                (''end'', JNumber (Float64 (5 / 2))),
                                (''text'', JString '' b'')]]),
              (''language'', JString ''en'')]"

definition two_segment_host :: host where
  "two_segment_host = mac_host\<lparr>ReadFile := (\<lambda>path. Inr (JSONText two_segment_artifact))\<rparr>"

text \<open>
  An artifact that names \<open>segments\<close> twice; in the second array the start is null.
\<close>

definition repeated_segments_artifact :: json where
  "repeated_segments_artifact =
     JObject [(''segments'',
               JArray [JObject [(''start'', JNumber (Float64 7)),
                                (''end'', JNumber (Float64 8)),
                                (''text'', JString ''a'')]]),
              (''segments'',
               JArray [JObject [(''start'', JNull)]])]"

section \<open>Properties of the sanitization pass\<close>

lemma clean_obj_nonfinite_iff: "has_nonfinite (clean_obj obj) = nonfinite_in_tuple obj"
  by (induction obj rule: clean_obj.induct) (auto simp: list_ex_iff)

lemma map_of_clean_obj:
  "map_of (map (\<lambda>kv. (fst kv, clean_obj (snd kv))) kvs) k = map_option clean_obj (map_of kvs k)"
  by (induction kvs) auto

lemma subtree_clean_obj:
  "subtree (clean_obj obj) p = map_option clean_obj (subtree obj p)"
proof (induction obj p rule: subtree.induct)
  case (2 kvs k p)
  show ?case
  proof (cases "map_of kvs k")
    case None
    then show ?thesis by (simp add: map_of_clean_obj)
  next
    case (Some v)
    with 2 show ?thesis by (simp add: map_of_clean_obj)
  qed
qed simp_all

text \<open>
  Through dictionaries and lists the pass does what it is meant to do: the same paths
  exist before and after, a float leaf that is not finite has become \<open>None\<close>, a finite
  float, an integer, a string, a boolean and \<open>None\<close> are the leaves they were.  A non-finite
  number is left in the value exactly when it sits in a tuple.
\<close>

lemma clean_obj_leaves:
  "subtree obj p = Some v \<Longrightarrow> is_leaf v \<Longrightarrow>
   subtree (clean_obj obj) p = Some (case v of PyFloat f \<Rightarrow> if isnan f \<or> isinf f then PyNone else v | _ \<Rightarrow> v)"
  by (cases v) (simp_all add: subtree_clean_obj)

lemma clean_obj_scenario:
  "\<not> has_nonfinite (clean_obj nan_segment_output) \<and>
   subtree (clean_obj nan_segment_output) [Key ''segments'', Idx 0, Key ''start''] = Some PyNone \<and>
   subtree (clean_obj nan_segment_output) [Key ''segments'', Idx 0, Key ''end'']
     = Some (PyFloat (Finite 1))"
  by (simp add: nan_segment_output_def)

text \<open>
  Claim C1.  The claim asks that no non-finite number is left anywhere in the sanitized
  value, for every value the engine may return.  \<open>clean_obj\<close> does not reach into a
  tuple: the result below, with the pair \<open>(nan, 0.5)\<close> in a segment, comes back as it
  went in, and \<open>json.dump\<close> writes its \<open>NaN\<close> into the artifact.
\<close>

theorem clean_obj_keeps_tuple:
  "clean_obj tuple_output = tuple_output \<and>
   has_nonfinite (clean_obj tuple_output) \<and>
   subtree (clean_obj tuple_output) [Key ''segments'', Idx 0, Key ''scores'']
     = Some (PyTuple [PyFloat NaN, PyFloat (Finite (1 / 2))])"
  by (simp add: tuple_output_def)


section \<open>Properties of \<open>parseResult\<close>\<close>

subsection \<open>The scenario of the specification\<close>

lemma Unmarshal_scenario:
  "Unmarshal (JSONText scenario_artifact) =
     Inr \<lparr>mlx_Text = '' hi  '',
          mlx_Segments =
            \<lparr>elems = [\<lparr>mlx_Start = 0, mlx_End = 1, mlx_SegText = '' hi ''\<rparr>], spare = []\<rparr>,
          mlx_Language = ''en''\<rparr>"
  by code_simp

lemma TrimSpace_hi: "TrimSpace '' hi '' = ''hi''"
  by code_simp

lemma parseResult_of_scenario:
  "ReadFile h jsonPath = Inr (JSONText scenario_artifact) \<Longrightarrow>
   fst (parseResult h jsonPath ps) =
     (Some \<lparr>Text = '' hi  '', Language = ''en'',
            ModelUsed = GetStringParameter h ps ''model'',
            Segments = [\<lparr>Start = 0, End = 1, SegText = ''hi''\<rparr>]\<rparr>, None)"
  by (simp add: parseResult_def Unmarshal_scenario convert_segment_def TrimSpace_hi)

lemma ReadFile_mac_host: "ReadFile mac_host path = Inr (JSONText scenario_artifact)"
  by (simp add: mac_host_def)

text \<open>
  Claim C3, as stated, fails.  For the artifact of the scenario the top-level text of
  the result is \<open>" hi  "\<close>, with the white space of the document around it, and not
  \<open>"hi"\<close>: \<open>parseResult\<close> copies \<open>mlxOutput.Text\<close> as it is.
\<close>

theorem parseResult_scenario_text_untrimmed:
  "map_option Text (fst (fst (parseResult mac_host ''/tmp/job1/output.json'' Map.empty)))
     = Some '' hi  '' \<and>
   map_option Text (fst (fst (parseResult mac_host ''/tmp/job1/output.json'' Map.empty)))
     \<noteq> Some ''hi''"
  by (simp add: parseResult_of_scenario [OF ReadFile_mac_host])

text \<open>
  Claim C3, amended.  For the artifact of the scenario \<open>parseResult\<close> returns, with a
  \<open>nil\<close> error, the result whose single segment is \<open>{start: 0.0, end: 1.0, text: "hi"}\<close>
  and whose top-level text is the document's \<open>" hi  "\<close>, unchanged; the language is
  \<open>"en"\<close> and the model is what \<open>GetStringParameter\<close> gives for \<open>"model"\<close>.  The text of
  each segment is trimmed; the top-level text is not.
\<close>

theorem parseResult_scenario:
  "ReadFile h jsonPath = Inr (JSONText scenario_artifact) \<Longrightarrow>
   fst (parseResult h jsonPath ps) =
     (Some \<lparr>Text = '' hi  '', Language = ''en'',
            ModelUsed = GetStringParameter h ps ''model'',
            Segments = [\<lparr>Start = 0, End = 1, SegText = ''hi''\<rparr>]\<rparr>, None)"
  by (rule parseResult_of_scenario)

theorem parseResult_scenario_witness:
  "ReadFile mac_host ''/tmp/job1/output.json'' = Inr (JSONText scenario_artifact) \<and>
   fst (parseResult mac_host ''/tmp/job1/output.json'' Map.empty) =
     (Some \<lparr>Text = '' hi  '', Language = ''en'',
            ModelUsed = ''mlx-community/whisper-large-v3-mlx'',
            Segments = [\<lparr>Start = 0, End = 1, SegText = ''hi''\<rparr>]\<rparr>, None)"
proof -
  have m: "GetStringParameter mac_host Map.empty ''model'' = ''mlx-community/whisper-large-v3-mlx''"
    by (simp add: mac_host_def string_parameter_def schema_def)
  from parseResult_scenario [OF ReadFile_mac_host, of "''/tmp/job1/output.json''" Map.empty] m
  show ?thesis by (simp add: ReadFile_mac_host)
qed

subsection \<open>How the members of the artifact reach the struct\<close>

lemma names_distinct:
  "names_field k ''start'' \<Longrightarrow> \<not> names_field k ''end''"
  "names_field k ''segments'' \<Longrightarrow> \<not> names_field k ''text''"
  by (simp_all add: names_field_def upper_ascii_def)

lemma last_member_None:
  "last_member field kvs = None \<Longrightarrow> list_all (\<lambda>kv. \<not> names_field (fst kv) field) kvs"
  by (induction kvs) (auto split: option.splits if_splits)


text \<open>A member that does not set a time leaves it; a member that holds a number sets it.\<close>

lemma decode_segment_member_start:
  "names_field (fst kv) ''start'' \<longrightarrow> snd kv = JNull \<Longrightarrow>
   decode_segment_member seg kv = Inr seg' \<Longrightarrow> mlx_Start seg' = mlx_Start seg"
  by (auto simp: decode_segment_member_def split: if_splits sum.splits)

lemma decode_segment_member_end:
  "names_field (fst kv) ''end'' \<longrightarrow> snd kv = JNull \<Longrightarrow>
   decode_segment_member seg kv = Inr seg' \<Longrightarrow> mlx_End seg' = mlx_End seg"
  by (auto simp: decode_segment_member_def split: if_splits sum.splits)

lemma decode_segment_member_sets_start:
  "names_field (fst kv) ''start'' \<Longrightarrow> snd kv = JNumber (Float64 x) \<Longrightarrow>
   decode_segment_member seg kv = Inr seg' \<Longrightarrow> mlx_Start seg' = x"
  by (auto simp: decode_segment_member_def split: if_splits sum.splits)

lemma decode_segment_member_sets_end:
  "names_field (fst kv) ''end'' \<Longrightarrow> snd kv = JNumber (Float64 x) \<Longrightarrow>
   decode_segment_member seg kv = Inr seg' \<Longrightarrow> mlx_End seg' = x"
  by (auto simp: decode_segment_member_def names_distinct split: if_splits sum.splits)

lemma decode_segment_members_start:
  "list_all (\<lambda>kv. names_field (fst kv) ''start'' \<longrightarrow> snd kv = JNull) kvs \<Longrightarrow>
   decode_segment_members seg kvs = Inr seg' \<Longrightarrow> mlx_Start seg' = mlx_Start seg"
proof (induction kvs arbitrary: seg)
  case Nil
  then show ?case by simp
next
  case (Cons kv kvs)
  from Cons.prems(2) obtain seg1 where
    1: "decode_segment_member seg kv = Inr seg1" and 2: "decode_segment_members seg1 kvs = Inr seg'"
    by (auto split: sum.splits)
  from Cons.prems(1) 1 have "mlx_Start seg1 = mlx_Start seg"
    by (auto dest: decode_segment_member_start [rotated])
  moreover from Cons.IH [OF _ 2] Cons.prems(1) have "mlx_Start seg' = mlx_Start seg1" by simp
  ultimately show ?case by simp
qed

lemma decode_segment_members_end:
  "list_all (\<lambda>kv. names_field (fst kv) ''end'' \<longrightarrow> snd kv = JNull) kvs \<Longrightarrow>
   decode_segment_members seg kvs = Inr seg' \<Longrightarrow> mlx_End seg' = mlx_End seg"
proof (induction kvs arbitrary: seg)
  case Nil
  then show ?case by simp
next
  case (Cons kv kvs)
  from Cons.prems(2) obtain seg1 where
    1: "decode_segment_member seg kv = Inr seg1" and 2: "decode_segment_members seg1 kvs = Inr seg'"
    by (auto split: sum.splits)
  from Cons.prems(1) 1 have "mlx_End seg1 = mlx_End seg"
    by (auto dest: decode_segment_member_end [rotated])
  moreover from Cons.IH [OF _ 2] Cons.prems(1) have "mlx_End seg' = mlx_End seg1" by simp
  ultimately show ?case by simp
qed

lemma unnamed_is_null:
  "list_all (\<lambda>kv. \<not> names_field (fst kv) field) kvs \<Longrightarrow>
   list_all (\<lambda>kv. names_field (fst kv) field \<longrightarrow> snd kv = JNull) kvs"
  by (simp add: list_all_iff)

text \<open>The last member that names a time decides it, whatever stood there before.\<close>

lemma decode_segment_members_last_start:
  "last_member ''start'' kvs = Some (JNumber (Float64 x)) \<Longrightarrow>
   decode_segment_members seg kvs = Inr seg' \<Longrightarrow> mlx_Start seg' = x"
proof (induction kvs arbitrary: seg)
  case Nil
  then show ?case by simp
next
  case (Cons kv kvs)
  from Cons.prems(2) obtain seg1 where
    1: "decode_segment_member seg kv = Inr seg1" and 2: "decode_segment_members seg1 kvs = Inr seg'"
    by (auto split: sum.splits)
  show ?case
  proof (cases "last_member ''start'' kvs")
    case (Some w)
    with Cons.prems(1) have "last_member ''start'' kvs = Some (JNumber (Float64 x))" by simp
    from Cons.IH [OF this 2] show ?thesis .
  next
    case None
    with Cons.prems(1) have n: "names_field (fst kv) ''start''" and v: "snd kv = JNumber (Float64 x)"
      by (auto split: if_splits)
    from decode_segment_member_sets_start [OF n v 1] have "mlx_Start seg1 = x" .
    moreover from None have "list_all (\<lambda>kv. names_field (fst kv) ''start'' \<longrightarrow> snd kv = JNull) kvs"
      by (intro unnamed_is_null last_member_None)
    from decode_segment_members_start [OF this 2] have "mlx_Start seg' = mlx_Start seg1" .
    ultimately show ?thesis by simp
  qed
qed

lemma decode_segment_members_last_end:
  "last_member ''end'' kvs = Some (JNumber (Float64 x)) \<Longrightarrow>
   decode_segment_members seg kvs = Inr seg' \<Longrightarrow> mlx_End seg' = x"
proof (induction kvs arbitrary: seg)
  case Nil
  then show ?case by simp
next
  case (Cons kv kvs)
  from Cons.prems(2) obtain seg1 where
    1: "decode_segment_member seg kv = Inr seg1" and 2: "decode_segment_members seg1 kvs = Inr seg'"
    by (auto split: sum.splits)
  show ?case
  proof (cases "last_member ''end'' kvs")
    case (Some w)
    with Cons.prems(1) have "last_member ''end'' kvs = Some (JNumber (Float64 x))" by simp
    from Cons.IH [OF this 2] show ?thesis .
  next
    case None
    with Cons.prems(1) have n: "names_field (fst kv) ''end''" and v: "snd kv = JNumber (Float64 x)"
      by (auto split: if_splits)
    from decode_segment_member_sets_end [OF n v 1] have "mlx_End seg1 = x" .
    moreover from None have "list_all (\<lambda>kv. names_field (fst kv) ''end'' \<longrightarrow> snd kv = JNull) kvs"
      by (intro unnamed_is_null last_member_None)
    from decode_segment_members_end [OF this 2] have "mlx_End seg' = mlx_End seg1" .
    ultimately show ?thesis by simp
  qed
qed

text \<open>
  An array gives the slice one element for each of its own, each decoded into what the
  old array held at its position.
\<close>

lemma decode_elements_nth:
  "decode_elements old js = Inr (segs, rest) \<Longrightarrow>
   length segs = length js \<and>
   (\<forall>i < length js.
      decode_segment (if i < length old then old ! i else zero_mlxSegment) (js ! i)
        = Inr (segs ! i))"
proof (induction js arbitrary: old segs)
  case Nil
  then show ?case by simp
next
  case (Cons j js)
  from Cons.prems obtain seg segs' where
    s: "decode_segment (case old of [] \<Rightarrow> zero_mlxSegment | seg # _ \<Rightarrow> seg) j = Inr seg"
    and r: "decode_elements (tl old) js = Inr (segs', rest)"
    and segs: "segs = seg # segs'"
    by (auto split: sum.splits prod.splits)
  from Cons.IH [OF r] have len: "length segs' = length js"
    and nth: "\<And>i. i < length js \<Longrightarrow>
      decode_segment (if i < length (tl old) then tl old ! i else zero_mlxSegment) (js ! i)
        = Inr (segs' ! i)"
    by auto
  have "decode_segment (if i < length old then old ! i else zero_mlxSegment) ((j # js) ! i)
      = Inr (segs ! i)" if "i < length (j # js)" for i
  proof (cases i)
    case 0
    with s segs show ?thesis by (cases old) simp_all
  next
    case (Suc k)
    with that have "k < length js" by simp
    from nth [OF this] Suc segs show ?thesis by (cases old) auto
  qed
  with len segs show ?case by simp
qed

lemma decode_output_member_segments:
  "names_field (fst kv) ''segments'' \<Longrightarrow> decode_output_member out kv = Inr out' \<Longrightarrow>
   decode_segments (mlx_Segments out) (snd kv) = Inr (mlx_Segments out')"
  by (auto simp: decode_output_member_def names_distinct split: if_splits sum.splits)

lemma decode_output_member_other:
  "\<not> names_field (fst kv) ''segments'' \<Longrightarrow> decode_output_member out kv = Inr out' \<Longrightarrow>
   mlx_Segments out' = mlx_Segments out"
  by (auto simp: decode_output_member_def split: if_splits sum.splits)

lemma decode_output_members_keep:
  "list_all (\<lambda>kv. \<not> names_field (fst kv) ''segments'') kvs \<Longrightarrow>
   decode_output_members out kvs = Inr out' \<Longrightarrow> mlx_Segments out' = mlx_Segments out"
proof (induction kvs arbitrary: out)
  case Nil
  then show ?case by simp
next
  case (Cons kv kvs)
  from Cons.prems(2) obtain out1 where
    1: "decode_output_member out kv = Inr out1" and 2: "decode_output_members out1 kvs = Inr out'"
    by (auto split: sum.splits)
  from Cons.prems(1) 1 have "mlx_Segments out1 = mlx_Segments out"
    by (auto dest: decode_output_member_other)
  moreover from Cons.IH [OF _ 2] Cons.prems(1) have "mlx_Segments out' = mlx_Segments out1" by simp
  ultimately show ?case by simp
qed

text \<open>
  The slice of the struct is what the last member naming \<open>segments\<close> was decoded to,
  into the slice that the members before it had left.
\<close>

lemma decode_output_members_last:
  "last_member ''segments'' kvs = Some v \<Longrightarrow> decode_output_members out kvs = Inr out' \<Longrightarrow>
   \<exists>old. decode_segments old v = Inr (mlx_Segments out')"
proof (induction kvs arbitrary: out)
  case Nil
  then show ?case by simp
next
  case (Cons kv kvs)
  from Cons.prems(2) obtain out1 where
    1: "decode_output_member out kv = Inr out1" and 2: "decode_output_members out1 kvs = Inr out'"
    by (auto split: sum.splits)
  show ?case
  proof (cases "last_member ''segments'' kvs")
    case (Some w)
    with Cons.prems(1) have "last_member ''segments'' kvs = Some v" by simp
    from Cons.IH [OF this 2] show ?thesis .
  next
    case None
    with Cons.prems(1) have n: "names_field (fst kv) ''segments''" and v: "v = snd kv"
      by (auto split: if_splits)
    from None have "list_all (\<lambda>kv. \<not> names_field (fst kv) ''segments'') kvs"
      by (rule last_member_None)
    from decode_output_members_keep [OF this 2] have "mlx_Segments out' = mlx_Segments out1" .
    with decode_output_member_segments [OF n 1] v show ?thesis by auto
  qed
qed


lemma parseResult_success:
  "ReadFile h jsonPath = Inr (JSONText (JObject members)) \<Longrightarrow>
   fst (parseResult h jsonPath ps) = (Some r, None) \<Longrightarrow>
   \<exists>out. decode_output_members zero_mlxOutput members = Inr out \<and>
         Segments r = map convert_segment (elems (mlx_Segments out))"
  by (auto simp: parseResult_def split: sum.splits)

lemma convert_segment_times:
  "Start (convert_segment s) = mlx_Start s" "End (convert_segment s) = mlx_End s"
  by (simp_all add: convert_segment_def)

text \<open>
  The segments of the result, position by position: each is the conversion of what the
  element of the array at that position was decoded to.
\<close>

lemma parseResult_segments:
  assumes "ReadFile h jsonPath = Inr (JSONText (JObject members))"
    and "last_member ''segments'' members = Some (JArray js)"
    and "fst (parseResult h jsonPath ps) = (Some r, None)"
  shows "length (Segments r) = length js \<and>
         (\<forall>i < length js. \<exists>seg0 seg. decode_segment seg0 (js ! i) = Inr seg \<and>
                                        Segments r ! i = convert_segment seg)"
proof -
  from parseResult_success [OF assms(1,3)] obtain out where
    out: "decode_output_members zero_mlxOutput members = Inr out"
    and r: "Segments r = map convert_segment (elems (mlx_Segments out))"
    by blast
  from decode_output_members_last [OF assms(2) out] obtain old where
    old: "decode_segments old (JArray js) = Inr (mlx_Segments out)"
    by blast
  show ?thesis
  proof (cases "js = []")
    case True
    with old have "mlx_Segments out = empty_slice" by simp
    with True r show ?thesis by (simp add: empty_slice_def)
  next
    case False
    with old have "\<exists>segs rest. decode_elements (elems old @ spare old) js = Inr (segs, rest) \<and>
        mlx_Segments out = \<lparr>elems = segs, spare = rest\<rparr>"
      by (auto split: sum.splits prod.splits)
    then obtain segs rest where
      d: "decode_elements (elems old @ spare old) js = Inr (segs, rest)"
      and m: "mlx_Segments out = \<lparr>elems = segs, spare = rest\<rparr>"
      by blast
    from m have "elems (mlx_Segments out) = segs" by simp
    with decode_elements_nth [OF d] r show ?thesis by auto
  qed
qed

subsection \<open>Timing is carried over\<close>

lemma parseResult_segment_times:
  assumes "ReadFile h jsonPath = Inr (JSONText (JObject members))"
    and "last_member ''segments'' members = Some (JArray js)"
    and "fst (parseResult h jsonPath ps) = (Some r, None)"
    and "i < length js" and "segment_times (js ! i) = Some (s, e)"
  shows "Start (Segments r ! i) = s \<and> End (Segments r ! i) = e"
proof -
  from assms(5) obtain kvs where obj: "js ! i = JObject kvs"
    by (cases "js ! i") simp_all
  with assms(5) have st: "last_member ''start'' kvs = Some (JNumber (Float64 s))"
    and en: "last_member ''end'' kvs = Some (JNumber (Float64 e))"
    by (auto split: option.splits json.splits number.splits)
  from parseResult_segments [OF assms(1,2,3)] assms(4) obj obtain seg0 seg where
    "decode_segment_members seg0 kvs = Inr seg" and "Segments r ! i = convert_segment seg"
    by fastforce
  with decode_segment_members_last_start [OF st] decode_segment_members_last_end [OF en]
  show ?thesis by (simp add: convert_segment_times)
qed

text \<open>
  Claim C8.  Take an artifact that is an object whose segments are an array.  When
  \<open>parseResult\<close> returns a result, the result has as many segments as the array; at
  every position, the number that the segment of the artifact gives to \<open>start\<close> is the
  start of the segment of the result, and the number it gives to \<open>end\<close> is its end.
  So when the timing of the artifact is in order (each start at most its end, starts
  not decreasing), the timing of the result is.
\<close>

theorem parseResult_preserves_timing:
  assumes "ReadFile h jsonPath = Inr (JSONText (JObject members))"
    and "last_member ''segments'' members = Some (JArray js)"
    and "fst (parseResult h jsonPath ps) = (Some r, None)"
  shows "length (Segments r) = length js \<and>
         (\<forall>i < length js. \<forall>kvs x. js ! i = JObject kvs \<longrightarrow>
            (last_member ''start'' kvs = Some (JNumber (Float64 x)) \<longrightarrow> Start (Segments r ! i) = x) \<and>
            (last_member ''end'' kvs = Some (JNumber (Float64 x)) \<longrightarrow> End (Segments r ! i) = x)) \<and>
         (artifact_well_timed js \<longrightarrow> well_timed (Segments r))"
proof (intro conjI allI impI)
  from parseResult_segments [OF assms] show len: "length (Segments r) = length js" by simp
  {
    fix i kvs x
    assume i: "i < length js" and obj: "js ! i = JObject kvs"
    from parseResult_segments [OF assms] i obj obtain seg0 seg where
      d: "decode_segment_members seg0 kvs = Inr seg" and c: "Segments r ! i = convert_segment seg"
      by fastforce
    {
      assume "last_member ''start'' kvs = Some (JNumber (Float64 x))"
      from decode_segment_members_last_start [OF this d] c
      show "Start (Segments r ! i) = x" by (simp add: convert_segment_times)
    }
    {
      assume "last_member ''end'' kvs = Some (JNumber (Float64 x))"
      from decode_segment_members_last_end [OF this d] c
      show "End (Segments r ! i) = x" by (simp add: convert_segment_times)
    }
  }
  assume wt: "artifact_well_timed js"
  have times: "Start (Segments r ! i) = fst (the (segment_times (js ! i))) \<and>
               End (Segments r ! i) = snd (the (segment_times (js ! i)))" if "i < length js" for i
  proof -
    from wt that obtain s e where "segment_times (js ! i) = Some (s, e)"
      by (auto simp: artifact_well_timed_def list_all_length)
    with parseResult_segment_times [OF assms that this] show ?thesis by simp
  qed
  have "i - 1 < length js" if "i < length js" for i
    using that by simp
  with wt times len show "well_timed (Segments r)"
    by (simp add: artifact_well_timed_def well_timed_def)
qed

lemma two_segment_facts:
  "ReadFile two_segment_host path = Inr (JSONText (JObject
      [(''text'', JString '' a b''),
       (''segments'',
        JArray [JObject [(''start'', JNumber (Float64 0)), (''end'', JNumber (Float64 1)),
                         (''text'', JString '' a'')],
                JObject [(''start'', JNumber (Float64 1)), (''end'', JNumber (Float64 (5 / 2))),
                         (''text'', JString '' b'')]]),
       (''language'', JString ''en'')]))"
  by (simp add: two_segment_host_def two_segment_artifact_def)

lemma two_segment_last:
  "last_member ''segments''
      [(''text'', JString '' a b''),
       (''segments'',
        JArray [JObject [(''start'', JNumber (Float64 0)), (''end'', JNumber (Float64 1)),
                         (''text'', JString '' a'')],
                JObject [(''start'', JNumber (Float64 1)), (''end'', JNumber (Float64 (5 / 2))),
                         (''text'', JString '' b'')]]),
       (''language'', JString ''en'')]
   = Some (JArray [JObject [(''start'', JNumber (Float64 0)), (''end'', JNumber (Float64 1)),
                            (''text'', JString '' a'')],
                   JObject [(''start'', JNumber (Float64 1)), (''end'', JNumber (Float64 (5 / 2))),
                            (''text'', JString '' b'')]])"
  by code_simp

lemma two_segment_times:
  "segment_times (JObject [(''start'', JNumber (Float64 0)), (''end'', JNumber (Float64 1)),
                           (''text'', JString '' a'')]) = Some (0, 1)"
  "segment_times (JObject [(''start'', JNumber (Float64 1)), (''end'', JNumber (Float64 (5 / 2))),
                           (''text'', JString '' b'')]) = Some (1, 5 / 2)"
  "last_member ''end'' [(''start'', JNumber (Float64 1)), (''end'', JNumber (Float64 (5 / 2))),
                        (''text'', JString '' b'')] = Some (JNumber (Float64 (5 / 2)))"
  by code_simp+

lemma Unmarshal_two_segments:
  "Unmarshal (JSONText two_segment_artifact) =
     Inr \<lparr>mlx_Text = '' a b'',
          mlx_Segments =
            \<lparr>elems = [\<lparr>mlx_Start = 0, mlx_End = 1, mlx_SegText = '' a''\<rparr>,
                      \<lparr>mlx_Start = 1, mlx_End = 5 / 2, mlx_SegText = '' b''\<rparr>],
             spare = []\<rparr>,
          mlx_Language = ''en''\<rparr>"
  by code_simp

lemma TrimSpace_a_b: "TrimSpace '' a'' = ''a''" "TrimSpace '' b'' = ''b''"
  by code_simp+

lemma parseResult_two_segments:
  "fst (parseResult two_segment_host ''/tmp/job1/output.json'' Map.empty) =
     (Some \<lparr>Text = '' a b'', Language = ''en'',
            ModelUsed = ''mlx-community/whisper-large-v3-mlx'',
            Segments = [\<lparr>Start = 0, End = 1, SegText = ''a''\<rparr>,
                        \<lparr>Start = 1, End = 5 / 2, SegText = ''b''\<rparr>]\<rparr>, None)"
proof -
  have "ReadFile two_segment_host ''/tmp/job1/output.json'' = Inr (JSONText two_segment_artifact)"
    by (simp add: two_segment_host_def)
  moreover have "GetStringParameter two_segment_host Map.empty ''model''
      = ''mlx-community/whisper-large-v3-mlx''"
    by (simp add: two_segment_host_def mac_host_def string_parameter_def schema_def)
  ultimately show ?thesis
    by (simp add: parseResult_def Unmarshal_two_segments convert_segment_def TrimSpace_a_b)
qed

theorem parseResult_preserves_timing_witness:
  "artifact_well_timed
     [JObject [(''start'', JNumber (Float64 0)), (''end'', JNumber (Float64 1)),
               (''text'', JString '' a'')],
      JObject [(''start'', JNumber (Float64 1)), (''end'', JNumber (Float64 (5 / 2))),
               (''text'', JString '' b'')]] \<and>
   fst (parseResult two_segment_host ''/tmp/job1/output.json'' Map.empty) =
     (Some \<lparr>Text = '' a b'', Language = ''en'',
            ModelUsed = ''mlx-community/whisper-large-v3-mlx'',
            Segments = [\<lparr>Start = 0, End = 1, SegText = ''a''\<rparr>,
                        \<lparr>Start = 1, End = 5 / 2, SegText = ''b''\<rparr>]\<rparr>, None) \<and>
   well_timed [\<lparr>Start = 0, End = 1, SegText = ''a''\<rparr>,
               \<lparr>Start = 1, End = 5 / 2, SegText = ''b''\<rparr>] \<and>
   End ([\<lparr>Start = 0, End = 1, SegText = ''a''\<rparr>,
         \<lparr>Start = 1, End = 5 / 2, SegText = ''b''\<rparr>] ! 1) = 5 / 2"
proof -
  have wt: "artifact_well_timed
     [JObject [(''start'', JNumber (Float64 0)), (''end'', JNumber (Float64 1)),
               (''text'', JString '' a'')],
      JObject [(''start'', JNumber (Float64 1)), (''end'', JNumber (Float64 (5 / 2))),
               (''text'', JString '' b'')]]"
    unfolding artifact_well_timed_def
  proof (intro conjI allI impI)
    show "list_all (\<lambda>j. segment_times j \<noteq> None)
       [JObject [(''start'', JNumber (Float64 0)), (''end'', JNumber (Float64 1)),
                 (''text'', JString '' a'')],
        JObject [(''start'', JNumber (Float64 1)), (''end'', JNumber (Float64 (5 / 2))),
                 (''text'', JString '' b'')]]"
      by (simp only: list.pred_inject two_segment_times option.distinct simp_thms)
  qed (auto simp add: two_segment_times less_Suc_eq simp del: segment_times.simps)
  from parseResult_preserves_timing
         [OF two_segment_facts two_segment_last parseResult_two_segments]
    wt two_segment_times(3) parseResult_two_segments
  show ?thesis by simp
qed

subsection \<open>A null time decodes as zero\<close>

text \<open>
  A repeated member is decoded into what the earlier one left.  In the artifact below
  the second \<open>segments\<close> array meets the element that the first one made, and its
  null start leaves the 7 of the first in place.
\<close>

lemma Unmarshal_repeated_segments:
  "Unmarshal (JSONText repeated_segments_artifact) =
     Inr \<lparr>mlx_Text = [],
          mlx_Segments =
            \<lparr>elems = [\<lparr>mlx_Start = 7, mlx_End = 8, mlx_SegText = ''a''\<rparr>], spare = []\<rparr>,
          mlx_Language = []\<rparr>"
  by code_simp








section \<open>Properties of \<open>PrepareEnvironment\<close>\<close>

text \<open>
  Claim C5.  On a host whose operating system is not \<open>darwin\<close>, \<open>PrepareEnvironment\<close>
  returns the error "MLX adapter is only supported on macOS", leaves the adapter as
  it was (the \<open>initialized\<close> flag included) and makes no call at all: no probe, no
  directory, no command.
\<close>

theorem PrepareEnvironment_unsupported_platform:
  "GOOS h \<noteq> ''darwin'' \<Longrightarrow> PrepareEnvironment h m = (Some OnlySupportedOnMacOS, m, [])"
  by (simp add: PrepareEnvironment_def)

theorem PrepareEnvironment_unsupported_platform_witness:
  "GOOS linux_host \<noteq> ''darwin'' \<and>
   PrepareEnvironment linux_host adapter = (Some OnlySupportedOnMacOS, adapter, []) \<and>
   initialized (fst (snd (PrepareEnvironment linux_host adapter))) = False"
proof -
  have g: "GOOS linux_host \<noteq> ''darwin''"
    by (simp add: linux_host_def mac_host_def)
  from PrepareEnvironment_unsupported_platform [OF g, of adapter] g
  show ?thesis by (simp add: adapter_def)
qed

text \<open>
  Claim C7.  On macOS, when the readiness probe finds the environment usable,
  \<open>PrepareEnvironment\<close> sets the \<open>initialized\<close> flag and returns \<open>nil\<close>; the probe is the
  only call it makes, so no directory is made and neither \<open>uv init\<close> nor \<open>uv add\<close> is
  run.  This holds for every adapter state, so also for the second of two calls in
  a row when the first one succeeded: the second one changes nothing.
\<close>

theorem PrepareEnvironment_ready_is_noop:
  "GOOS h = ''darwin'' \<Longrightarrow>
   CheckEnvironmentReady h (Join h (envPath m) ''MLX'') ''import mlx_whisper'' \<Longrightarrow>
   PrepareEnvironment h m =
     (None, m\<lparr>initialized := True\<rparr>,
      [EvCheckEnvironmentReady (Join h (envPath m) ''MLX'') ''import mlx_whisper'']) \<and>
   \<not> list_ex install_action (snd (snd (PrepareEnvironment h m)))"
  by (simp add: PrepareEnvironment_def Let_def)

lemma mac_host_paths:
  "filepath_Join ''./data/mlx-env'' ''MLX'' = ''data/mlx-env/MLX''"
  "filepath_Join ''data/mlx-env/MLX'' ''pyproject.toml'' = ''data/mlx-env/MLX/pyproject.toml''"
  "filepath_Join ''/tmp/job1'' ''output.json'' = ''/tmp/job1/output.json''"
  by code_simp+

lemma PrepareEnvironment_first_call:
  "PrepareEnvironment fresh_mac_host adapter =
     (None, adapter\<lparr>initialized := True\<rparr>,
      [EvCheckEnvironmentReady ''data/mlx-env/MLX'' ''import mlx_whisper'',
       EvMkdirAll ''data/mlx-env/MLX'',
       EvStat ''data/mlx-env/MLX/pyproject.toml'',
       EvCombinedOutput (initCmd ''data/mlx-env/MLX''),
       EvCombinedOutput (installCmd ''data/mlx-env/MLX'')])"
  by (simp add: PrepareEnvironment_def Let_def fresh_mac_host_def mac_host_def adapter_def
      install_def mac_host_paths)

text \<open>
  The witness makes two calls in a row: the first on the machine before anything was
  installed, the second, with the adapter that the first one left, once the
  environment is ready.
\<close>

theorem PrepareEnvironment_ready_is_noop_witness:
  "GOOS mac_host = ''darwin'' \<and>
   CheckEnvironmentReady mac_host
     (Join mac_host (envPath (fst (snd (PrepareEnvironment fresh_mac_host adapter)))) ''MLX'')
     ''import mlx_whisper'' \<and>
   PrepareEnvironment mac_host (fst (snd (PrepareEnvironment fresh_mac_host adapter))) =
     (None, fst (snd (PrepareEnvironment fresh_mac_host adapter)),
      [EvCheckEnvironmentReady ''data/mlx-env/MLX'' ''import mlx_whisper'']) \<and>
   \<not> list_ex install_action
       (snd (snd (PrepareEnvironment mac_host
          (fst (snd (PrepareEnvironment fresh_mac_host adapter))))))"
proof -
  have g: "GOOS mac_host = ''darwin''"
    by (simp add: mac_host_def)
  have p: "CheckEnvironmentReady mac_host
      (Join mac_host (envPath (adapter\<lparr>initialized := True\<rparr>)) ''MLX'') ''import mlx_whisper''"
    by (simp add: mac_host_def)
  have j: "Join mac_host (envPath (adapter\<lparr>initialized := True\<rparr>)) ''MLX'' = ''data/mlx-env/MLX''"
    by (simp add: mac_host_def adapter_def mac_host_paths)
  from PrepareEnvironment_ready_is_noop [OF g p] g p j
  show ?thesis by (simp add: PrepareEnvironment_first_call)
qed

section \<open>Properties of \<open>Transcribe\<close>\<close>

text \<open>
  Claim C6.  When \<open>ValidateAudioInput\<close> reports an error for the input, as it does for
  a file that does not exist, \<open>Transcribe\<close> returns that error with a \<open>nil\<close> result, and
  the only calls it has made are the two log calls and the validation: no process was
  started and the log file in the output directory was not created.
\<close>

theorem Transcribe_invalid_input:
  "ValidateAudioInput h input = Some err \<Longrightarrow>
   Transcribe h m input ps procCtx =
     ((None, Some err), [EvLogProcessingStart, EvValidateAudioInput input, EvLogProcessingEnd]) \<and>
   \<not> list_ex launches_process (snd (Transcribe h m input ps procCtx)) \<and>
   \<not> list_ex creates_log (snd (Transcribe h m input ps procCtx))"
  by (simp add: Transcribe_def)

theorem Transcribe_invalid_input_witness:
  "ValidateAudioInput mac_host missing_audio = Some (HostError ''audio file not found'') \<and>
   Transcribe mac_host adapter missing_audio Map.empty job =
     ((None, Some (HostError ''audio file not found'')),
      [EvLogProcessingStart, EvValidateAudioInput missing_audio, EvLogProcessingEnd]) \<and>
   \<not> list_ex launches_process (snd (Transcribe mac_host adapter missing_audio Map.empty job)) \<and>
   \<not> list_ex creates_log (snd (Transcribe mac_host adapter missing_audio Map.empty job))"
proof -
  have v: "ValidateAudioInput mac_host missing_audio = Some (HostError ''audio file not found'')"
    by (simp add: mac_host_def missing_audio_def)
  from Transcribe_invalid_input [OF v, of adapter Map.empty job] v
  show ?thesis by simp
qed

text \<open>
  Claim C9.  \<open>Transcribe\<close> returns either a result and a \<open>nil\<close> error, or a \<open>nil\<close> result
  and an error, on every path; so does \<open>parseResult\<close>.  A result never comes with an
  error.
\<close>

theorem Transcribe_result_xor_error:
  "(fst (fst (Transcribe h m input ps procCtx)) = None)
     = (snd (fst (Transcribe h m input ps procCtx)) \<noteq> None) \<and>
   (fst (fst (parseResult h jsonPath ps)) = None)
     = (snd (fst (parseResult h jsonPath ps)) \<noteq> None)"
  by (simp add: Transcribe_def parseResult_def Let_def split: option.splits sum.splits)

subsection \<open>The parameters\<close>

lemma parseResult_model_only:
  "GetStringParameter h ps1 ''model'' = GetStringParameter h ps2 ''model'' \<Longrightarrow>
   parseResult h jsonPath ps1 = parseResult h jsonPath ps2"
  by (simp add: parseResult_def split: sum.splits)

lemma mac_host_default_model:
  "GetStringParameter mac_host mistyped_params ''model'' = ''mlx-community/whisper-large-v3-mlx''"
  "GetStringParameter mac_host Map.empty ''model'' = ''mlx-community/whisper-large-v3-mlx''"
  by (simp_all add: mac_host_def string_parameter_def mistyped_params_def schema_def)

text \<open>
  Claim C2, as stated, fails.  The parameters \<open>{"model": 42}\<close> give the key \<open>model\<close>,
  declared a string, an integer: validation against the schema would answer
  \<open>InvalidParameter\<close>.  \<open>Transcribe\<close> does not validate; on a host where every step
  succeeds it returns a result and a \<open>nil\<close> error.
\<close>

theorem Transcribe_accepts_mistyped_model:
  "validate schema mistyped_params = Some (InvalidParameter ''model'') \<and>
   fst (Transcribe mac_host adapter audio mistyped_params job) =
     (Some \<lparr>Text = '' hi  '', Language = ''en'',
            ModelUsed = ''mlx-community/whisper-large-v3-mlx'',
            Segments = [\<lparr>Start = 0, End = 1, SegText = ''hi''\<rparr>]\<rparr>, None)"
proof -
  have v: "validate schema mistyped_params = Some (InvalidParameter ''model'')"
    by (simp add: schema_def mistyped_params_def)
  have s: "ValidateAudioInput mac_host audio = None"
      "CreateTempDirectory mac_host job = Inr ''/tmp/job1''"
      "\<And>p. WriteFile mac_host p = None" "\<And>c. Run mac_host c = None"
    by (simp_all add: mac_host_def audio_def)
  have "fst (Transcribe mac_host adapter audio mistyped_params job) =
      fst (parseResult mac_host (Join mac_host ''/tmp/job1'' ''output.json'') mistyped_params)"
    by (simp add: Transcribe_def Let_def s)
  with v show ?thesis
    by (simp add: parseResult_of_scenario [OF ReadFile_mac_host] mac_host_default_model)
qed

text \<open>
  Claim C2, amended.  \<open>Transcribe\<close> does not validate the parameters against the
  schema and has no failure for a missing or a mistyped parameter.  It reads them
  only through \<open>GetStringParameter(params, "model")\<close>: two parameter maps for which
  that lookup gives the same string give the same result, the same error and the same
  calls, so every other key, known to the schema or not, is ignored.  The string of
  the lookup is the argument after \<open>--model\<close> of every engine command that the call
  runs, and it is the \<open>ModelUsed\<close> of every result that the call returns.
\<close>

theorem Transcribe_reads_only_model:
  "(GetStringParameter h ps1 ''model'' = GetStringParameter h ps2 ''model'' \<longrightarrow>
      Transcribe h m input ps1 procCtx = Transcribe h m input ps2 procCtx) \<and>
   (\<forall>cmd. EvRun cmd \<in> set (snd (Transcribe h m input ps procCtx)) \<longrightarrow>
      (\<exists>tempDir. cmd_args cmd =
         [''run'', ''--project'', Join h (envPath m) ''MLX'', ''python'',
          Join h tempDir ''transcribe_mlx.py'',
          ''--audio'', FilePath input,
          ''--model'', GetStringParameter h ps ''model'',
          ''--output'', Join h tempDir ''output.json''])) \<and>
   (\<forall>r. fst (fst (Transcribe h m input ps procCtx)) = Some r \<longrightarrow>
      ModelUsed r = GetStringParameter h ps ''model'')"
proof (intro conjI allI impI)
  assume "GetStringParameter h ps1 ''model'' = GetStringParameter h ps2 ''model''"
  then show "Transcribe h m input ps1 procCtx = Transcribe h m input ps2 procCtx"
    unfolding Transcribe_def Let_def
    by (simp add: parseResult_model_only [of h ps1 ps2] cong: option.case_cong sum.case_cong)
next
  fix cmd
  assume "EvRun cmd \<in> set (snd (Transcribe h m input ps procCtx))"
  then show "\<exists>tempDir. cmd_args cmd =
         [''run'', ''--project'', Join h (envPath m) ''MLX'', ''python'',
          Join h tempDir ''transcribe_mlx.py'',
          ''--audio'', FilePath input,
          ''--model'', GetStringParameter h ps ''model'',
          ''--output'', Join h tempDir ''output.json'']"
    by (auto simp: Transcribe_def Let_def parseResult_def runCmd_def
        split: option.splits sum.splits)
next
  fix r
  assume "fst (fst (Transcribe h m input ps procCtx)) = Some r"
  then show "ModelUsed r = GetStringParameter h ps ''model''"
    by (auto simp: Transcribe_def Let_def parseResult_def split: option.splits sum.splits)
qed

lemma Transcribe_mac_host_result:
  "fst (Transcribe mac_host adapter audio ps job) =
     (Some \<lparr>Text = '' hi  '', Language = ''en'',
            ModelUsed = GetStringParameter mac_host ps ''model'',
            Segments = [\<lparr>Start = 0, End = 1, SegText = ''hi''\<rparr>]\<rparr>, None)"
proof -
  have s: "ValidateAudioInput mac_host audio = None"
      "CreateTempDirectory mac_host job = Inr ''/tmp/job1''"
      "\<And>p. WriteFile mac_host p = None" "\<And>c. Run mac_host c = None"
    by (simp_all add: mac_host_def audio_def)
  have "fst (Transcribe mac_host adapter audio ps job) =
      fst (parseResult mac_host (Join mac_host ''/tmp/job1'' ''output.json'') ps)"
    by (simp add: Transcribe_def Let_def s)
  then show ?thesis
    by (simp add: parseResult_of_scenario [OF ReadFile_mac_host])
qed

theorem Transcribe_reads_only_model_witness:
  "GetStringParameter mac_host unknown_key_params ''model''
     = GetStringParameter mac_host Map.empty ''model'' \<and>
   Transcribe mac_host adapter audio unknown_key_params job
     = Transcribe mac_host adapter audio Map.empty job \<and>
   map_option ModelUsed (fst (fst (Transcribe mac_host adapter audio unknown_key_params job)))
     = Some ''mlx-community/whisper-large-v3-mlx''"
proof -
  have e: "GetStringParameter mac_host unknown_key_params ''model''
      = GetStringParameter mac_host Map.empty ''model''"
    by (simp add: mac_host_def string_parameter_def unknown_key_params_def)
  have d: "GetStringParameter mac_host unknown_key_params ''model''
      = ''mlx-community/whisper-large-v3-mlx''"
    by (simp add: mac_host_def string_parameter_def unknown_key_params_def schema_def)
  note t = Transcribe_reads_only_model
      [of mac_host unknown_key_params Map.empty adapter audio job unknown_key_params]
  from t e have "Transcribe mac_host adapter audio unknown_key_params job
      = Transcribe mac_host adapter audio Map.empty job"
    by blast
  moreover obtain r where
    r: "fst (fst (Transcribe mac_host adapter audio unknown_key_params job)) = Some r"
    by (simp add: Transcribe_mac_host_result)
  with t have "ModelUsed r = GetStringParameter mac_host unknown_key_params ''model''"
    by blast
  ultimately show ?thesis using e d r by simp
qed

subsection \<open>A run that does not finish\<close>

lemma Transcribe_run_fails:
  "ValidateAudioInput h input = None \<Longrightarrow>
   CreateTempDirectory h procCtx = Inr tempDir \<Longrightarrow>
   WriteFile h (Join h tempDir ''transcribe_mlx.py'') = None \<Longrightarrow>
   Run h (runCmd h m tempDir input (GetStringParameter h ps ''model'')) = Some err \<Longrightarrow>
   Transcribe h m input ps procCtx =
     ((None, Some (MLXExecutionFailed err)),
      [EvLogProcessingStart, EvValidateAudioInput input, EvCreateTempDirectory,
       EvWriteFile (Join h tempDir ''transcribe_mlx.py''),
       EvCreate (Join h (OutputDirectory procCtx) ''mlx_transcription.log''),
       EvRun (runCmd h m tempDir input (GetStringParameter h ps ''model'')),
       EvCleanupTempDirectory tempDir, EvLogProcessingEnd])"
  by (simp add: Transcribe_def Let_def)

lemma mac_host_steps:
  "ValidateAudioInput mac_host audio = None"
  "CreateTempDirectory mac_host job = Inr ''/tmp/job1''"
  "WriteFile mac_host p = None"
  by (simp_all add: mac_host_def audio_def)

lemma Transcribe_when_run_fails:
  "fst (Transcribe (mac_host\<lparr>Run := (\<lambda>cmd. Some err)\<rparr>) adapter audio Map.empty job)
     = (None, Some (MLXExecutionFailed err))"
  by (simp add: Transcribe_def Let_def mac_host_steps)

text \<open>
  Claim C4, as stated, fails.  When the context is cancelled while the engine runs,
  \<open>cmd.Run\<close> returns the exit error of the killed child, and \<open>Transcribe\<close> returns the
  error "MLX execution failed" wrapping it.  That error is not the cancellation error
  of the context and does not wrap it, so \<open>errors.Is\<close> does not find it; the same
  holds for the deadline.  The cancelled call and the call that ran out of time return
  the same error, which is of the kind that an engine failing by itself gives:
  there is no error that tells a cancelled call or a timed out call.
\<close>

theorem Transcribe_cancelled_error:
  "snd (fst (Transcribe cancelled_host adapter audio Map.empty job))
     = Some (MLXExecutionFailed (ExitError (Signal ''killed''))) \<and>
   \<not> errors_Is (MLXExecutionFailed (ExitError (Signal ''killed''))) ContextCanceled \<and>
   snd (fst (Transcribe timeout_host adapter audio Map.empty job))
     = Some (MLXExecutionFailed (ExitError (Signal ''killed''))) \<and>
   \<not> errors_Is (MLXExecutionFailed (ExitError (Signal ''killed''))) DeadlineExceeded \<and>
   snd (fst (Transcribe failing_host adapter audio Map.empty job))
     = Some (MLXExecutionFailed (ExitError (ExitStatus 1)))"
  by (simp add: cancelled_host_def timeout_host_def failing_host_def Transcribe_when_run_fails)

text \<open>
  Claim C4, amended.  The engine is started with \<open>exec.CommandContext\<close>, so the child
  is bound to the context of the call.  When \<open>cmd.Run\<close> returns an error, whatever
  it is (the exit error of a child killed because the context was cancelled or its
  deadline passed, or that of an engine that failed), \<open>Transcribe\<close> returns a \<open>nil\<close>
  result and the error "MLX execution failed" wrapping that error; there is no
  error of its own for a cancelled or a timed out call.  The deferred
  \<open>CleanupTempDirectory\<close> is called for the workspace after the run, before
  \<open>Transcribe\<close> returns.
\<close>

theorem Transcribe_run_error:
  "ValidateAudioInput h input = None \<Longrightarrow>
   CreateTempDirectory h procCtx = Inr tempDir \<Longrightarrow>
   WriteFile h (Join h tempDir ''transcribe_mlx.py'') = None \<Longrightarrow>
   Run h (runCmd h m tempDir input (GetStringParameter h ps ''model'')) = Some err \<Longrightarrow>
   Transcribe h m input ps procCtx =
     ((None, Some (MLXExecutionFailed err)),
      [EvLogProcessingStart, EvValidateAudioInput input, EvCreateTempDirectory,
       EvWriteFile (Join h tempDir ''transcribe_mlx.py''),
       EvCreate (Join h (OutputDirectory procCtx) ''mlx_transcription.log''),
       EvRun (runCmd h m tempDir input (GetStringParameter h ps ''model'')),
       EvCleanupTempDirectory tempDir, EvLogProcessingEnd]) \<and>
   cmd_ctx (runCmd h m tempDir input (GetStringParameter h ps ''model''))"
  by (simp add: Transcribe_run_fails runCmd_def)

theorem Transcribe_run_error_witness:
  "ValidateAudioInput cancelled_host audio = None \<and>
   CreateTempDirectory cancelled_host job = Inr ''/tmp/job1'' \<and>
   WriteFile cancelled_host (Join cancelled_host ''/tmp/job1'' ''transcribe_mlx.py'') = None \<and>
   Run cancelled_host
     (runCmd cancelled_host adapter ''/tmp/job1'' audio
        (GetStringParameter cancelled_host Map.empty ''model'')) = Some (ExitError (Signal ''killed'')) \<and>
   Transcribe cancelled_host adapter audio Map.empty job =
     ((None, Some (MLXExecutionFailed (ExitError (Signal ''killed'')))),
      [EvLogProcessingStart, EvValidateAudioInput audio, EvCreateTempDirectory,
       EvWriteFile (Join cancelled_host ''/tmp/job1'' ''transcribe_mlx.py''),
       EvCreate (Join cancelled_host (OutputDirectory job) ''mlx_transcription.log''),
       EvRun (runCmd cancelled_host adapter ''/tmp/job1'' audio
                (GetStringParameter cancelled_host Map.empty ''model'')),
       EvCleanupTempDirectory ''/tmp/job1'', EvLogProcessingEnd])"
proof -
  have v: "ValidateAudioInput cancelled_host audio = None"
    and c: "CreateTempDirectory cancelled_host job = Inr ''/tmp/job1''"
    and w: "WriteFile cancelled_host (Join cancelled_host ''/tmp/job1'' ''transcribe_mlx.py'') = None"
    and r: "Run cancelled_host
       (runCmd cancelled_host adapter ''/tmp/job1'' audio
          (GetStringParameter cancelled_host Map.empty ''model'')) = Some (ExitError (Signal ''killed''))"
    by (simp_all add: cancelled_host_def mac_host_steps)
  from Transcribe_run_error [OF v c w r] v c w r
  show ?thesis by simp
qed


end
